theory Spec2Isabelle
  imports Complex_Main "HOL-Library.Multiset"
begin

section \<open>Recognized lines\<close>

text \<open>
  Coordinates and confidences are the recognizer's floating-point numbers, taken here
  as the rationals they denote. Comparisons, \<open>min\<close>, \<open>max\<close>, \<open>abs\<close> and \<open>int\<close>
  of floats are exact, and are modelled exactly. The two operations on them that round,
  \<open>np.mean\<close> of a list and the difference of two floats, are parameters of the model
  (\<open>f_mean\<close> and \<open>f_sub\<close> of the record \<open>config\<close> below), so that what is proved
  holds whatever they round to. Python's \<open>int(x)\<close> truncates towards zero.
\<close>

definition py_int :: "rat \<Rightarrow> int" where
  "py_int x = (if 0 \<le> x then \<lfloor>x\<rfloor> else \<lceil>x\<rceil>)"

type_synonym point = "rat \<times> rat"

text \<open>
  A polygon \<open>[[x1,y1], [x2,y2], ...]\<close>. It always has a first vertex: the recognizer
  returns quadrilaterals, and the empty polygon (on which Python's \<open>min\<close> raises) is
  excluded by the type.
\<close>

datatype box = Box point "point list"

fun points :: "box \<Rightarrow> point list" where
  "points (Box p ps) = p # ps"

fun x_coords :: "box \<Rightarrow> rat list" where
  "x_coords (Box p ps) = fst p # map fst ps"

fun y_coords :: "box \<Rightarrow> rat list" where
  "y_coords (Box p ps) = snd p # map snd ps"

text \<open>\<open>min(xs)\<close> and \<open>max(xs)\<close> of a list with first element \<open>x\<close>.\<close>

fun py_min :: "rat list \<Rightarrow> rat" where
  "py_min [] = 0"
| "py_min (x # xs) = fold min xs x"

fun py_max :: "rat list \<Rightarrow> rat" where
  "py_max [] = 0"
| "py_max (x # xs) = fold max xs x"

text \<open>The mean of a non-empty list without rounding.\<close>

definition exact_mean :: "rat list \<Rightarrow> rat" where
  "exact_mean xs = sum_list xs / of_nat (length xs)"

text \<open>One entry \<open>[box, (text, confidence)]\<close> of an OCR result.\<close>

record line =
  line_box :: box
  line_text :: string
  confidence :: rat

definition line_x_min :: "line \<Rightarrow> rat" where
  "line_x_min l = py_min (x_coords (line_box l))"

definition line_y_min :: "line \<Rightarrow> rat" where
  "line_y_min l = py_min (y_coords (line_box l))"

definition line_y_max :: "line \<Rightarrow> rat" where
  "line_y_max l = py_max (y_coords (line_box l))"

section \<open>Parameters: pattern matcher, configuration, float operations\<close>

text \<open>
  The extractor sees a line's text only through the pattern matcher, whose patterns come
  from the configuration file. The matcher's five tests and the one configuration switch
  the extractor reads are parameters of everything below: \<open>matches_question\<close> is
  \<open>matches_pattern(text, 'question')\<close>, and \<open>prefer_chinese_primary\<close> is
  \<open>question_primary_type != 'arabic'\<close>. So are the two rounding operations on
  floats: \<open>f_mean xs\<close> is \<open>np.mean(xs)\<close> and \<open>f_sub a b\<close> is the float \<open>a - b\<close>.
\<close>

record config =
  is_chinese_number_question :: "string \<Rightarrow> bool"
  is_sub_question :: "string \<Rightarrow> bool"
  is_nested_sub_question :: "string \<Rightarrow> bool"
  extract_nested_sub_number :: "string \<Rightarrow> int option"
  matches_question :: "string \<Rightarrow> bool"
  prefer_chinese_primary :: bool
  f_mean :: "rat list \<Rightarrow> rat"
  f_sub :: "rat \<Rightarrow> rat \<Rightarrow> rat"

section \<open>Line merger (ocr\_text\_merger.py)\<close>

text \<open>\<open>self.line_y_threshold = 10.0\<close>, set in the constructor and never changed.\<close>

definition line_y_threshold :: rat where
  "line_y_threshold = 10"

text \<open>The dictionary \<open>{'text', 'confidence', 'box', 'y_center'}\<close> kept per fragment.\<close>

record text_info =
  info_text :: string
  info_confidence :: rat
  info_box :: box
  y_center :: rat

definition info_of :: "config \<Rightarrow> line \<Rightarrow> text_info" where
  "info_of cfg l = \<lparr>info_text = line_text l, info_confidence = confidence l,
                    info_box = line_box l, y_center = f_mean cfg (y_coords (line_box l))\<rparr>"

text \<open>
  \<open>_merge_line_texts\<close>: \<open>None\<close> on the empty list, the single fragment as it is, and
  otherwise the fragments sorted by their left edge (Python's \<open>sorted\<close> is stable, as
  \<open>sort_key\<close> is), the texts joined, the confidences averaged, and the box spanned by
  all points.
\<close>

definition merged_bbox :: "text_info list \<Rightarrow> box" where
  "merged_bbox sorted_texts =
     (let all_points = concat (map (\<lambda>info. points (info_box info)) sorted_texts);
          xs = map fst all_points;
          ys = map snd all_points;
          x_min = py_min xs; x_max = py_max xs;
          y_min = py_min ys; y_max = py_max ys
      in Box (x_min, y_min) [(x_max, y_min), (x_max, y_max), (x_min, y_max)])"

fun merge_line_texts :: "config \<Rightarrow> text_info list \<Rightarrow> line option" where
  "merge_line_texts cfg [] = None"
| "merge_line_texts cfg [t] =
     Some \<lparr>line_box = info_box t, line_text = info_text t, confidence = info_confidence t\<rparr>"
| "merge_line_texts cfg line_texts =
     (let sorted_texts = sort_key (\<lambda>x. py_min (x_coords (info_box x))) line_texts
      in Some \<lparr>line_box = merged_bbox sorted_texts,
               line_text = concat (map info_text sorted_texts),
               confidence = f_mean cfg (map info_confidence sorted_texts)\<rparr>)"

text \<open>
  \<open>merged_result.append(self._merge_line_texts(current_line_texts))\<close>. The call is only
  made on a non-empty cluster, where the result is never \<open>None\<close>.
\<close>

definition append_merged :: "config \<Rightarrow> line list \<Rightarrow> text_info list \<Rightarrow> line list" where
  "append_merged cfg merged_result current_line_texts =
     (case merge_line_texts cfg current_line_texts of
        Some merged_line \<Rightarrow> merged_result @ [merged_line]
      | None \<Rightarrow> merged_result)"

text \<open>
  One round of the loop over the sorted fragments; the state is
  \<open>(merged_result, current_line_texts)\<close>.
\<close>

definition merge_step ::
  "config \<Rightarrow> line \<Rightarrow> line list \<times> text_info list \<Rightarrow> line list \<times> text_info list" where
  "merge_step cfg line_data st =
     (case st of (merged_result, current_line_texts) \<Rightarrow>
        if current_line_texts = [] then (merged_result, [info_of cfg line_data])
        else if \<bar>f_sub cfg (y_center (info_of cfg line_data))
                    (y_center (last current_line_texts))\<bar>
                  \<le> line_y_threshold
        then (merged_result, current_line_texts @ [info_of cfg line_data])
        else (append_merged cfg merged_result current_line_texts,
              [info_of cfg line_data]))"

definition merge_same_line_texts :: "config \<Rightarrow> line list \<Rightarrow> line list" where
  "merge_same_line_texts cfg ocr_result =
     (if ocr_result = [] then []
      else
        let sorted_result = sort_key line_y_min ocr_result;
            st = fold (merge_step cfg) sorted_result ([], [])
        in if snd st \<noteq> [] then append_merged cfg (fst st) (snd st) else fst st)"




text \<open>
  The same-line rule in the words of the specification, for comparison with the code's
  rule: the centers are closer than 0.8 times the page's average line height, or the
  vertical spans overlap by more than 30 percent of the larger height.
\<close>

definition line_height :: "line \<Rightarrow> rat" where
  "line_height l = line_y_max l - line_y_min l"

definition spec_same_line :: "line list \<Rightarrow> line \<Rightarrow> line \<Rightarrow> bool" where
  "spec_same_line page_lines a b =
     (let avg_height = exact_mean (map line_height page_lines);
          center_a = (line_y_min a + line_y_max a) / 2;
          center_b = (line_y_min b + line_y_max b) / 2;
          overlap = min (line_y_max a) (line_y_max b) - max (line_y_min a) (line_y_min b)
      in \<bar>center_a - center_b\<bar> < (8 / 10) * avg_height
         \<or> overlap > (3 / 10) * max (line_height a) (line_height b))"

text \<open>
  The code's test that a fragment \<open>u\<close> belongs to the line whose last fragment is
  \<open>t\<close>; a cluster in which each fragment passes the test against the one before it;
  and a list of clusters in which the first fragment of each fails the test against the
  last fragment of the cluster before it.
\<close>

definition close_to :: "config \<Rightarrow> text_info \<Rightarrow> text_info \<Rightarrow> bool" where
  "close_to cfg u t = (\<bar>f_sub cfg (y_center u) (y_center t)\<bar> \<le> line_y_threshold)"

fun chained :: "config \<Rightarrow> text_info list \<Rightarrow> bool" where
  "chained cfg (t # u # rest) = (close_to cfg u t \<and> chained cfg (u # rest))"
| "chained cfg _ = True"

fun separated :: "config \<Rightarrow> text_info list list \<Rightarrow> bool" where
  "separated cfg (c # d # rest) =
     (\<not> close_to cfg (hd d) (last c) \<and> separated cfg (d # rest))"
| "separated cfg _ = True"

text \<open>
  A clustering of a list of fragments: a split of the list into consecutive, non-empty,
  chained clusters that are separated from each other.
\<close>

definition is_clustering :: "config \<Rightarrow> text_info list \<Rightarrow> text_info list list \<Rightarrow> bool" where
  "is_clustering cfg p cs =
     (concat cs = p \<and> [] \<notin> set cs \<and> list_all (chained cfg) cs \<and> separated cfg cs)"

text \<open>
  The grouping rule in words, for comparison with the merger's loop: going through the
  fragments in order, a fragment stays on the line of the fragment before it exactly
  when it passes the test against that fragment, and starts a new line otherwise.
\<close>

fun join_first :: "'a \<Rightarrow> 'a list list \<Rightarrow> 'a list list" where
  "join_first t [] = [[t]]"
| "join_first t (c # cs) = (t # c) # cs"

fun group_lines :: "config \<Rightarrow> text_info list \<Rightarrow> text_info list list" where
  "group_lines cfg [] = []"
| "group_lines cfg [t] = [[t]]"
| "group_lines cfg (t # u # rest) =
     (if close_to cfg u t then join_first t (group_lines cfg (u # rest))
      else [t] # group_lines cfg (u # rest))"

text \<open>The fragments of a page in the order in which the merger reads them.\<close>

definition sorted_fragments :: "config \<Rightarrow> line list \<Rightarrow> text_info list" where
  "sorted_fragments cfg ocr_result = map (info_of cfg) (sort_key line_y_min ocr_result)"

text \<open>
  The loop invariant of the merger: the finished clusters and the current one are the
  clustering of the fragments read so far, and each finished cluster has produced its
  merged line.
\<close>

definition cluster_inv :: "config \<Rightarrow> line list \<Rightarrow> line list \<times> text_info list \<Rightarrow> bool" where
  "cluster_inv cfg p st =
     (\<exists>cs. concat cs @ snd st = map (info_of cfg) p \<and> [] \<notin> set cs \<and>
           list_all (chained cfg) cs \<and> chained cfg (snd st) \<and>
           separated cfg (if snd st = [] then cs else cs @ [snd st]) \<and>
           map (merge_line_texts cfg) cs = map Some (fst st) \<and>
           (p \<noteq> [] \<longrightarrow> snd st \<noteq> []))"

section \<open>Question records\<close>

datatype question_type = Chinese | Sub | Other

text \<open>
  The question dictionary (its key \<open>'text'\<close> is \<open>question_text\<close>). A key that may be absent is an option (\<open>None\<close> when absent
  or set to \<open>None\<close>); a flag read with \<open>.get(...)\<close> is \<open>False\<close> when absent. The
  constant key \<open>'type'\<close> and the image objects attached for the cropper are left out.
\<close>

record question =
  start_y :: int
  start_x :: int
  question_text :: string
  page :: nat
  is_chinese_question :: bool
  question_type :: question_type
  text_height :: int
  nested_sub_numbers :: "int list"
  early_end_y :: "int option"
  early_end_text :: "string option"
  cross_page :: bool
  cross_page_to :: "nat option"
  cross_page_merged :: bool
  cross_page_end_page :: "nat option"
  cross_page_end_y :: "int option"
  image_height :: "nat option"
  end_y :: "int option"
  end_page :: "nat option"
  next_question_y :: "int option"
  potential_cross_page :: bool

definition new_question ::
  "int \<Rightarrow> string \<Rightarrow> nat \<Rightarrow> bool \<Rightarrow> question_type \<Rightarrow> int \<Rightarrow> question" where
  "new_question y_pos txt page_num is_chinese qtype height =
     \<lparr>start_y = y_pos, start_x = 0, question_text = txt, page = page_num,
      is_chinese_question = is_chinese, question_type = qtype, text_height = height,
      nested_sub_numbers = [], early_end_y = None, early_end_text = None,
      cross_page = False, cross_page_to = None, cross_page_merged = False,
      cross_page_end_page = None, cross_page_end_y = None, image_height = None,
      end_y = None, end_page = None, next_question_y = None,
      potential_cross_page = False\<rparr>"

text \<open>
  Python dictionaries are shared objects: the extractor keeps changing a dictionary
  after it has appended it to a list, and the same dictionary can be appended twice.
  The dictionaries therefore live in a store, a list indexed by reference, and the
  lists the code builds hold references.
\<close>

type_synonym ref = nat

definition upd_q :: "ref \<Rightarrow> (question \<Rightarrow> question) \<Rightarrow> question list \<Rightarrow> question list" where
  "upd_q r f h = h[r := f (h ! r)]"

section \<open>Nested-item lookahead (question\_extractor.py)\<close>

text \<open>The dictionary returned by \<open>_check_next_nested_sub_question\<close>.\<close>

record lookahead =
  found_next_nested :: bool
  la_cross_page :: bool
  la_cross_page_to :: "nat option"
  la_early_end_y :: "int option"
  la_early_end_text :: "string option"

text \<open>
  The loop over the remaining lines of the current page. The state is
  \<open>(found_next_nested, early_end_y, early_end_text, checked_lines)\<close>; finding the
  expected number leaves the loop at once.
\<close>

fun scan_current_page ::
  "config \<Rightarrow> int \<Rightarrow> line list \<Rightarrow> bool \<times> int option \<times> string option \<times> nat
     \<Rightarrow> bool \<times> int option \<times> string option \<times> nat" where
  "scan_current_page cfg next_expected_number [] st = st"
| "scan_current_page cfg next_expected_number (next_line_data # rest)
       (found, early_y, early_text, checked_lines) =
     (let next_line_text = line_text next_line_data;
          next_y_min = py_int (line_y_min next_line_data)
      in if is_nested_sub_question cfg next_line_text then
           (if extract_nested_sub_number cfg next_line_text = Some next_expected_number
            then (True, early_y, early_text, checked_lines)
            else if early_y = None
            then scan_current_page cfg next_expected_number rest
                   (found, Some next_y_min, Some (take 30 next_line_text), checked_lines + 1)
            else scan_current_page cfg next_expected_number rest
                   (found, early_y, early_text, checked_lines + 1))
         else if early_y = None
         then scan_current_page cfg next_expected_number rest
                (found, Some next_y_min, Some (take 30 next_line_text), checked_lines + 1)
         else scan_current_page cfg next_expected_number rest
                (found, early_y, early_text, checked_lines + 1))"

text \<open>
  The loop over the first lines of the next page: it returns from the function when it
  finds the expected number and records nothing otherwise.
\<close>

fun scan_next_page :: "config \<Rightarrow> int \<Rightarrow> line list \<Rightarrow> bool" where
  "scan_next_page cfg next_expected_number [] = False"
| "scan_next_page cfg next_expected_number (next_line_data # rest) =
     (if is_nested_sub_question cfg (line_text next_line_data) then
        (if extract_nested_sub_number cfg (line_text next_line_data)
              = Some next_expected_number
         then True
         else scan_next_page cfg next_expected_number rest)
      else scan_next_page cfg next_expected_number rest)"

definition check_next_nested_sub_question ::
  "config \<Rightarrow> nat \<Rightarrow> line list \<Rightarrow> int \<Rightarrow> nat \<Rightarrow> (nat \<rightharpoonup> line list) \<Rightarrow> nat \<Rightarrow> lookahead" where
  "check_next_nested_sub_question cfg current_idx ocr_result nested_number page_num
       all_page_ocr_results total_pages =
     (let next_expected_number = nested_number + 1;
          look_ahead_count = 3;
          current_page_lines_remaining = length ocr_result - current_idx - 1;
          lines_to_check_current_page = min look_ahead_count current_page_lines_remaining;
          res = scan_current_page cfg next_expected_number
                  (take lines_to_check_current_page (drop (current_idx + 1) ocr_result))
                  (False, None, None, 0);
          found = fst res;
          early_y = fst (snd res);
          early_text = fst (snd (snd res));
          checked_lines = snd (snd (snd res));
          plain = \<lparr>found_next_nested = found, la_cross_page = False, la_cross_page_to = None,
                   la_early_end_y = early_y, la_early_end_text = early_text\<rparr>;
          next_page_num = page_num + 1
      in if \<not> found \<and> checked_lines < look_ahead_count \<and> next_page_num \<le> total_pages then
           (case all_page_ocr_results next_page_num of
              None \<Rightarrow> plain
            | Some next_page_ocr \<Rightarrow>
                if scan_next_page cfg next_expected_number
                     (take (min (look_ahead_count - checked_lines) (length next_page_ocr))
                        next_page_ocr)
                then \<lparr>found_next_nested = True, la_cross_page = True,
                      la_cross_page_to = Some next_page_num,
                      la_early_end_y = None, la_early_end_text = None\<rparr>
                else plain)
         else plain)"

text \<open>
  Notions used to state what the lookahead does: a line that carries the expected next
  number, the (at most three) lines of the current page after the nested item, and the
  condition under which the expected number is found only on the next page.
\<close>

definition matches_next :: "config \<Rightarrow> int \<Rightarrow> line \<Rightarrow> bool" where
  "matches_next cfg n l =
     (is_nested_sub_question cfg (line_text l) \<and>
      extract_nested_sub_number cfg (line_text l) = Some (n + 1))"

definition lookahead_window :: "nat \<Rightarrow> line list \<Rightarrow> line list" where
  "lookahead_window idx ocr_result = take 3 (drop (Suc idx) ocr_result)"

definition crosses_page :: "config \<Rightarrow> nat \<Rightarrow> line list \<Rightarrow> int \<Rightarrow> nat \<Rightarrow> (nat \<rightharpoonup> line list) \<Rightarrow> nat \<Rightarrow> bool" where
  "crosses_page cfg idx ocr_result n page_num all_pages total_pages =
     ((\<forall>l\<in>set (lookahead_window idx ocr_result). \<not> matches_next cfg n l) \<and>
      length (lookahead_window idx ocr_result) < 3 \<and> page_num + 1 \<le> total_pages \<and>
      (case all_pages (page_num + 1) of
         None \<Rightarrow> False
       | Some next_page_ocr \<Rightarrow>
           \<exists>l\<in>set (take (3 - length (lookahead_window idx ocr_result)) next_page_ocr).
              matches_next cfg n l))"

section \<open>Boundary extractor (question\_extractor.py)\<close>

text \<open>
  The local state of \<open>extract_question_positions\<close>: the store, the list
  \<open>questions\<close> of references, the set of used start positions, the open question, the
  flag \<open>is_chinese_question\<close> (here \<open>is_chinese_open\<close>) and the list
  \<open>nested_sub_numbers\<close> (here \<open>cur_nested\<close>).
\<close>

record extractor_state =
  heap :: "question list"
  questions :: "ref list"
  seen_start_positions :: "int set"
  current_question :: "ref option"
  is_chinese_open :: bool
  cur_nested :: "int list"

text \<open>\<open>if current_question: questions.append(current_question)\<close>\<close>

definition append_current :: "extractor_state \<Rightarrow> extractor_state" where
  "append_current st =
     (case current_question st of
        Some r \<Rightarrow> st\<lparr>questions := questions st @ [r]\<rparr>
      | None \<Rightarrow> st)"

text \<open>\<open>current_question = {...}\<close>: a new dictionary, at the next free reference.\<close>

definition open_question :: "question \<Rightarrow> extractor_state \<Rightarrow> extractor_state" where
  "open_question q st =
     st\<lparr>heap := heap st @ [q], current_question := Some (length (heap st))\<rparr>"

text \<open>
  The update of \<open>early_end_y\<close> after a lookahead that found no next item, for a question
  that is not marked \<open>cross_page\<close>.
\<close>

definition record_early_end :: "ref \<Rightarrow> int \<Rightarrow> string option \<Rightarrow> question list \<Rightarrow> question list" where
  "record_early_end r e etext h =
     (let question_start_y = start_y (h ! r) in
      if e > question_start_y then
        (case early_end_y (h ! r) of
           None \<Rightarrow> upd_q r (\<lambda>q. q\<lparr>early_end_y := Some e, early_end_text := etext\<rparr>) h
         | Some existing_early_end \<Rightarrow>
             if e < existing_early_end \<and> e > question_start_y
             then upd_q r (\<lambda>q. q\<lparr>early_end_y := Some e, early_end_text := etext\<rparr>) h
             else h)
      else h)"

text \<open>The three places that open a question share the duplicate check and the opening.\<close>

definition open_if_new ::
  "int \<Rightarrow> question \<Rightarrow> bool \<Rightarrow> extractor_state \<Rightarrow> extractor_state" where
  "open_if_new y_pos q is_chinese st =
     (if y_pos \<in> seen_start_positions st then st
      else open_question q
             (st\<lparr>seen_start_positions := insert y_pos (seen_start_positions st),
                 cur_nested := [], is_chinese_open := is_chinese\<rparr>))"

definition extract_step ::
  "config \<Rightarrow> line list \<Rightarrow> nat \<Rightarrow> (nat \<rightharpoonup> line list) \<Rightarrow> nat \<Rightarrow> nat \<Rightarrow> line
     \<Rightarrow> extractor_state \<Rightarrow> extractor_state" where
  "extract_step cfg ocr_result page_num all_page_ocr_results total_pages idx line_data st =
     (let txt = line_text line_data;
          y_pos = py_int (line_y_min line_data);
          height = py_int (f_sub cfg (line_y_max line_data) (line_y_min line_data))
      in
      if is_chinese_number_question cfg txt then
        (if prefer_chinese_primary cfg then
           open_if_new y_pos (new_question y_pos txt page_num True Chinese height) True
             ((append_current st)\<lparr>cur_nested := []\<rparr>)
         else
           (case current_question st of
              Some r \<Rightarrow>
                st\<lparr>heap := (if y_pos > start_y (heap st ! r)
                             then upd_q r (\<lambda>q. q\<lparr>early_end_y := Some y_pos,
                                                   early_end_text := Some (take 30 txt)\<rparr>)
                                    (heap st)
                             else heap st),
                   questions := questions st @ [r],
                   current_question := None,
                   cur_nested := [], is_chinese_open := False\<rparr>
            | None \<Rightarrow> st\<lparr>cur_nested := [], is_chinese_open := False\<rparr>))
      else if is_sub_question cfg txt then
        (if prefer_chinese_primary cfg \<and> is_chinese_open st \<and> current_question st \<noteq> None
         then st
         else open_if_new y_pos (new_question y_pos txt page_num False Sub height) False
                (append_current st))
      else if is_nested_sub_question cfg txt then
        (case current_question st of
           None \<Rightarrow> st
         | Some r \<Rightarrow>
             (case extract_nested_sub_number cfg txt of
                None \<Rightarrow> st
              | Some nested_number \<Rightarrow>
                  (let nested = cur_nested st @ [nested_number];
                       h1 = upd_q r (\<lambda>q. q\<lparr>nested_sub_numbers := nested\<rparr>) (heap st);
                       early_end_info =
                         check_next_nested_sub_question cfg idx ocr_result nested_number
                           page_num all_page_ocr_results total_pages;
                       h2 = (if la_cross_page early_end_info
                             then upd_q r (\<lambda>q. q\<lparr>cross_page := True,
                                     cross_page_to := la_cross_page_to early_end_info\<rparr>) h1
                             else h1);
                       h3 = (if \<not> found_next_nested early_end_info then
                               (if cross_page (h2 ! r) then h2
                                else
                                  (case la_early_end_y early_end_info of
                                     None \<Rightarrow> h2
                                   | Some e \<Rightarrow>
                                       record_early_end r e
                                         (la_early_end_text early_end_info) h2))
                             else h2)
                   in st\<lparr>heap := h3, cur_nested := nested\<rparr>)))
      else if matches_question cfg txt then
        (let st0 =
               (case current_question st of
                  None \<Rightarrow> st
                | Some r \<Rightarrow>
                    (case early_end_y (heap st ! r) of
                       None \<Rightarrow> st
                     | Some early \<Rightarrow>
                         if y_pos < early
                         then st\<lparr>heap := upd_q r (\<lambda>q. q\<lparr>early_end_y := Some y_pos,
                                             early_end_text := Some (take 30 txt)\<rparr>)
                                           (heap st)\<rparr>
                         else st))
         in open_if_new y_pos (new_question y_pos txt page_num False Other height) False
              (append_current st0))
      else st)"

fun extract_lines ::
  "config \<Rightarrow> line list \<Rightarrow> nat \<Rightarrow> (nat \<rightharpoonup> line list) \<Rightarrow> nat \<Rightarrow> nat \<Rightarrow> line list
     \<Rightarrow> extractor_state \<Rightarrow> extractor_state" where
  "extract_lines cfg ocr_result page_num all_page_ocr_results total_pages idx [] st = st"
| "extract_lines cfg ocr_result page_num all_page_ocr_results total_pages idx
       (line_data # rest) st =
     extract_lines cfg ocr_result page_num all_page_ocr_results total_pages (Suc idx) rest
       (extract_step cfg ocr_result page_num all_page_ocr_results total_pages idx
          line_data st)"

definition init_state :: "question list \<Rightarrow> extractor_state" where
  "init_state h = \<lparr>heap = h, questions = [], seen_start_positions = {},
                   current_question = None, is_chinese_open = False, cur_nested = []\<rparr>"

text \<open>
  \<open>extract_question_positions\<close>, on the store \<open>h\<close>: the new store and the returned list
  of references.
\<close>

definition extract_question_positions ::
  "config \<Rightarrow> question list \<Rightarrow> line list \<Rightarrow> nat \<Rightarrow> (nat \<rightharpoonup> line list) \<Rightarrow> nat
     \<Rightarrow> question list \<times> ref list" where
  "extract_question_positions cfg h ocr_result page_num all_page_ocr_results total_pages =
     (let st = append_current
                 (extract_lines cfg ocr_result page_num all_page_ocr_results total_pages 0
                    ocr_result (init_state h))
      in (heap st, questions st))"

section \<open>Cross-page merge resolver (layout\_analyzer.py, analyze\_all\_pages)\<close>

text \<open>
  The document is a list of pages, each with the height of its image and the OCR result
  that \<open>analyze_page\<close> returns for it (the merged lines; empty for a blank page). Page
  numbers start at 1, as \<open>enumerate(images, 1)\<close> gives them.
\<close>

record page_data =
  height :: nat
  ocr :: "line list"

text \<open>The dictionary \<open>all_ocr_results\<close>, with keys \<open>1 .. len(images)\<close>.\<close>

definition all_ocr_results :: "page_data list \<Rightarrow> (nat \<rightharpoonup> line list)" where
  "all_ocr_results pages =
     (\<lambda>k. if 1 \<le> k \<and> k \<le> length pages then Some (ocr (pages ! (k - 1))) else None)"

text \<open>
  \<open>images[page - 1].height\<close> for a page number taken from the traversal, which is
  always between 1 and the number of pages.
\<close>

definition image_height_of :: "page_data list \<Rightarrow> nat \<Rightarrow> nat" where
  "image_height_of pages page_num =
     (if 1 \<le> page_num \<and> page_num \<le> length pages then height (pages ! (page_num - 1))
      else 0)"

text \<open>\<open>max(xs)\<close> of a non-empty list of integers.\<close>

fun py_max_int :: "int list \<Rightarrow> int" where
  "py_max_int [] = 0"
| "py_max_int (x # xs) = fold max xs x"

text \<open>\<open>max(numbers) + 1 if numbers else 1\<close>\<close>

definition expected_next :: "int list \<Rightarrow> int" where
  "expected_next numbers = (if numbers \<noteq> [] then py_max_int numbers + 1 else 1)"

text \<open>
  The scan of the current page for the nested items that continue the pending
  question. The state is \<open>(merged_sub_numbers, expected_next_number, merged_count)\<close>.
\<close>

fun merge_nested_scan ::
  "config \<Rightarrow> line list \<Rightarrow> int list \<times> int \<times> nat \<Rightarrow> int list \<times> int \<times> nat" where
  "merge_nested_scan cfg [] st = st"
| "merge_nested_scan cfg (line_data # rest) (merged_sub_numbers, expected_next_number,
       merged_count) =
     (if is_nested_sub_question cfg (line_text line_data) then
        (case extract_nested_sub_number cfg (line_text line_data) of
           None \<Rightarrow> merge_nested_scan cfg rest
                     (merged_sub_numbers, expected_next_number, merged_count)
         | Some nested_number \<Rightarrow>
             if nested_number = expected_next_number
             then merge_nested_scan cfg rest
                    (merged_sub_numbers @ [nested_number], nested_number + 1,
                     merged_count + 1)
             else merge_nested_scan cfg rest
                    (merged_sub_numbers, expected_next_number, merged_count))
      else merge_nested_scan cfg rest
             (merged_sub_numbers, expected_next_number, merged_count))"

text \<open>
  The probe of the following pages (\<open>range(page_idx + 1, min(page_idx + 3,
  total_pages + 1))\<close>, first three lines of each) for the next expected number: the
  first page on which it is found.
\<close>

fun find_more_pages :: "config \<Rightarrow> (nat \<rightharpoonup> line list) \<Rightarrow> int \<Rightarrow> nat list \<Rightarrow> nat option" where
  "find_more_pages cfg all_results final_expected_next [] = None"
| "find_more_pages cfg all_results final_expected_next (check_page_num # rest) =
     (case all_results check_page_num of
        None \<Rightarrow> find_more_pages cfg all_results final_expected_next rest
      | Some check_page_ocr \<Rightarrow>
          if list_ex (\<lambda>l. is_nested_sub_question cfg (line_text l) \<and>
                           extract_nested_sub_number cfg (line_text l)
                             = Some final_expected_next)
               (take 3 check_page_ocr)
          then Some check_page_num
          else find_more_pages cfg all_results final_expected_next rest)"

text \<open>
  The attempt to extend the pending question on page \<open>page_idx\<close>. The state is the
  store, the list \<open>all_questions\<close> of \<open>(page, question, image height)\<close> and the pending
  pair \<open>(question, origin page)\<close>.
\<close>

type_synonym traversal = "question list \<times> (nat \<times> ref \<times> nat) list \<times> (ref \<times> nat) option"

definition process_pending ::
  "config \<Rightarrow> page_data list \<Rightarrow> nat \<Rightarrow> traversal \<Rightarrow> traversal" where
  "process_pending cfg pages page_idx tr =
     (case tr of (h, all_questions, pending) \<Rightarrow>
      (case pending of
         None \<Rightarrow> tr
       | Some (r, cross_page_from_page) \<Rightarrow>
           (let ocr_result = ocr (pages ! (page_idx - 1));
                total_pages = length pages;
                cross_page_to_page =
                  (case cross_page_to (h ! r) of Some p \<Rightarrow> p | None \<Rightarrow> page_idx)
            in if page_idx \<ge> cross_page_to_page then
                 (let merged0 = nested_sub_numbers (h ! r);
                      res = merge_nested_scan cfg ocr_result
                              (merged0, expected_next merged0, 0);
                      merged = fst res;
                      merged_count = snd (snd res)
                  in if merged_count > 0 then
                       (let h1 = upd_q r (\<lambda>q. q\<lparr>nested_sub_numbers := merged\<rparr>) h;
                            final_expected_next = expected_next merged
                        in case find_more_pages cfg (all_ocr_results pages)
                                  final_expected_next
                                  [page_idx + 1 ..< min (page_idx + 3) (total_pages + 1)] of
                             Some check_page_num \<Rightarrow>
                               (upd_q r (\<lambda>q. q\<lparr>cross_page_to := Some check_page_num\<rparr>) h1,
                                all_questions, pending)
                           | None \<Rightarrow>
                               (let end_y_found =
                                      (if merged \<noteq> [] then
                                         map_option (\<lambda>l. py_int (line_y_max l))
                                           (find (\<lambda>l. is_nested_sub_question cfg (line_text l) \<and>
                                                       extract_nested_sub_number cfg (line_text l)
                                                         = Some (py_max_int merged))
                                              ocr_result)
                                       else None);
                                    from_height = image_height_of pages cross_page_from_page;
                                    h2 = upd_q r
                                           (\<lambda>q. q\<lparr>cross_page := False, cross_page_to := None,
                                                  cross_page_end_y :=
                                                    (case end_y_found of
                                                       Some y \<Rightarrow> Some y
                                                     | None \<Rightarrow> cross_page_end_y q),
                                                  image_height := Some from_height,
                                                  cross_page_merged := True,
                                                  cross_page_end_page := Some page_idx\<rparr>) h1
                                in (h2, all_questions @ [(cross_page_from_page, r, from_height)],
                                    None)))
                     else tr)
               else tr)))"

text \<open>
  The loop over the questions extracted from a page: a question marked \<open>cross_page\<close>
  becomes the pending one, any other is appended to \<open>all_questions\<close>.
\<close>

fun place_questions :: "nat \<Rightarrow> nat \<Rightarrow> ref list \<Rightarrow> traversal \<Rightarrow> traversal" where
  "place_questions page_idx image_h [] tr = tr"
| "place_questions page_idx image_h (q # rest) (h, all_questions, pending) =
     (if cross_page (h ! q)
      then place_questions page_idx image_h rest (h, all_questions, Some (q, page_idx))
      else place_questions page_idx image_h rest
             (upd_q q (\<lambda>d. d\<lparr>image_height := Some image_h\<rparr>) h,
              all_questions @ [(page_idx, q, image_h)], pending))"

text \<open>One round of the page loop of the second step.\<close>

definition page_step :: "config \<Rightarrow> page_data list \<Rightarrow> nat \<Rightarrow> traversal \<Rightarrow> traversal" where
  "page_step cfg pages page_idx tr =
     (case process_pending cfg pages page_idx tr of (h, all_questions, pending) \<Rightarrow>
        (case extract_question_positions cfg h (ocr (pages ! (page_idx - 1))) page_idx
                (all_ocr_results pages) (length pages) of
           (h', page_questions) \<Rightarrow>
             place_questions page_idx (height (pages ! (page_idx - 1))) page_questions
               (h', all_questions, pending)))"

text \<open>The second step: all pages in order, then the question still pending, if any.\<close>

definition collect_questions ::
  "config \<Rightarrow> page_data list \<Rightarrow> question list \<times> (nat \<times> ref \<times> nat) list" where
  "collect_questions cfg pages =
     (case fold (page_step cfg pages) [1 ..< length pages + 1] ([], [], None) of
        (h, all_questions, pending) \<Rightarrow>
          (case pending of
             None \<Rightarrow> (h, all_questions)
           | Some (r, cross_page_from_page) \<Rightarrow>
               (upd_q r (\<lambda>q. q\<lparr>image_height :=
                                   Some (image_height_of pages cross_page_from_page)\<rparr>) h,
                all_questions @
                  [(cross_page_from_page, r, image_height_of pages cross_page_from_page)])))"

section \<open>Boundary finalizer (layout\_analyzer.py, analyze\_all\_pages)\<close>

text \<open>
  Third step. The heights of the lines of the question's page from \<open>start_y\<close> on; the
  scan stops at the first line below a known, non-zero \<open>end_y\<close>.
\<close>

fun collect_line_heights :: "config \<Rightarrow> int \<Rightarrow> int option \<Rightarrow> line list \<Rightarrow> int list" where
  "collect_line_heights cfg question_start_y question_end_y [] = []"
| "collect_line_heights cfg question_start_y question_end_y (line_data # rest) =
     (if line_y_min line_data \<ge> of_int question_start_y then
        (if (case question_end_y of
               None \<Rightarrow> False
             | Some e \<Rightarrow> e \<noteq> 0 \<and> line_y_min line_data > of_int e)
         then []
         else
           (let line_h = py_int (f_sub cfg (line_y_max line_data) (line_y_min line_data)) in
            if line_h > 0
            then line_h # collect_line_heights cfg question_start_y question_end_y rest
            else collect_line_heights cfg question_start_y question_end_y rest))
      else collect_line_heights cfg question_start_y question_end_y rest)"

text \<open>\<open>min(xs)\<close> of a non-empty list of integers.\<close>

fun py_min_int :: "int list \<Rightarrow> int" where
  "py_min_int [] = 0"
| "py_min_int (x # xs) = fold min xs x"

definition refine_text_height ::
  "config \<Rightarrow> page_data list \<Rightarrow> nat \<times> ref \<times> nat \<Rightarrow> question list \<Rightarrow> question list" where
  "refine_text_height cfg pages entry h =
     (case entry of (page_num, r, image_h) \<Rightarrow>
        (let ocr_result = (case all_ocr_results pages page_num of
                             Some lines \<Rightarrow> lines | None \<Rightarrow> []);
             line_heights = collect_line_heights cfg (start_y (h ! r)) (end_y (h ! r)) ocr_result
         in if line_heights \<noteq> []
            then upd_q r (\<lambda>q. q\<lparr>text_height := py_min_int line_heights\<rparr>) h
            else h))"

text \<open>
  Fourth step. \<open>int(h * 0.97)\<close> and \<open>int(t * 0.3)\<close>, taken exactly: for the integers
  of a page the floating-point product is within half a unit in the last place of the
  exact one, so both truncate to the same integer.
\<close>

definition pct97 :: "nat \<Rightarrow> int" where
  "pct97 h = py_int (of_nat h * 97 / 100)"

definition margin30 :: "int \<Rightarrow> int" where
  "margin30 t = py_int (of_int t * 3 / 10)"

datatype py_error = IndexError

text \<open>
  \<open>images[cross_page_end_page - 1].height\<close> for \<open>cross_page_end_page <= len(images)\<close>:
  page 0 gives index -1, the last image, and fails on an empty list.
\<close>

definition end_page_height :: "nat list \<Rightarrow> nat \<Rightarrow> py_error + nat" where
  "end_page_height images end_page_num =
     (if end_page_num = 0
      then (if images = [] then Inl IndexError else Inr (last images))
      else Inr (images ! (end_page_num - 1)))"

text \<open>
  The end of one question. \<open>images\<close> are the heights of all page images, \<open>page_num\<close>
  and \<open>image_h\<close> the page and image height stored with the question in
  \<open>all_questions\<close>, and \<open>nxt\<close> the page, \<open>start_y\<close> and \<open>text_height\<close> of the next
  entry of \<open>all_questions\<close>, if there is one.
\<close>

definition resolve_end ::
  "nat list \<Rightarrow> nat \<Rightarrow> nat \<Rightarrow> (nat \<times> int \<times> int) option \<Rightarrow> question \<Rightarrow> py_error + question" where
  "resolve_end images page_num image_h nxt question =
     (let first_part =
            (if cross_page_merged question then
               (let end_page_num =
                      (case cross_page_end_page question of Some p \<Rightarrow> p | None \<Rightarrow> page_num)
                in case cross_page_end_y question of
                     Some y \<Rightarrow>
                       Inr (question\<lparr>end_y := Some y, end_page := Some end_page_num\<rparr>)
                   | None \<Rightarrow>
                       (case (if end_page_num \<le> length images
                              then end_page_height images end_page_num
                              else Inr image_h) of
                          Inl e \<Rightarrow> Inl e
                        | Inr end_h \<Rightarrow>
                            Inr (question\<lparr>end_y := Some (pct97 end_h),
                                           end_page := Some end_page_num\<rparr>)))
             else if cross_page question then
               Inr (question\<lparr>end_y := Some (pct97 image_h), end_page := Some page_num\<rparr>)
             else
               (case early_end_y question of
                  None \<Rightarrow> Inr question
                | Some early \<Rightarrow>
                    if early > start_y question
                    then Inr (question\<lparr>end_y := Some early, end_page := Some page_num\<rparr>)
                    else Inr (question\<lparr>early_end_y := None\<rparr>)))
      in case first_part of
           Inl e \<Rightarrow> Inl e
         | Inr q1 \<Rightarrow>
             Inr (if early_end_y q1 = None \<and> \<not> cross_page q1 \<and> \<not> cross_page_merged q1 then
                    (case nxt of
                       Some (next_page, next_y, next_text_height) \<Rightarrow>
                         if next_page = page_num
                         then q1\<lparr>end_y := Some (next_y - margin30 next_text_height),
                                 end_page := Some page_num,
                                 next_question_y := Some next_y\<rparr>
                         else q1\<lparr>end_y := Some (pct97 image_h), end_page := Some page_num,
                                 potential_cross_page := True\<rparr>
                     | None \<Rightarrow>
                         q1\<lparr>end_y := Some (pct97 image_h),
                            end_page := Some (length images)\<rparr>)
                  else q1))"

text \<open>The loop of the fourth step over \<open>all_questions\<close>, on the store.\<close>

fun resolve_ends ::
  "nat list \<Rightarrow> (nat \<times> ref \<times> nat) list \<Rightarrow> question list \<Rightarrow> py_error + question list" where
  "resolve_ends images [] h = Inr h"
| "resolve_ends images ((page_num, r, image_h) # rest) h =
     (case resolve_end images page_num image_h
             (case rest of
                [] \<Rightarrow> None
              | (next_page, next_r, _) # _ \<Rightarrow>
                  Some (next_page, start_y (h ! next_r), text_height (h ! next_r)))
             (h ! r) of
        Inl e \<Rightarrow> Inl e
      | Inr q' \<Rightarrow> resolve_ends images rest (h[r := q']))"

text \<open>
  \<open>analyze_all_pages\<close>: the store after the four steps and the references of
  \<open>final_questions\<close>, and the returned list of dictionaries as values.
\<close>

definition analyze_all_pages_refs ::
  "config \<Rightarrow> page_data list \<Rightarrow> py_error + (question list \<times> ref list)" where
  "analyze_all_pages_refs cfg pages =
     (case collect_questions cfg pages of (h, all_questions) \<Rightarrow>
        (case resolve_ends (map height pages) all_questions
                (fold (refine_text_height cfg pages) all_questions h) of
           Inl e \<Rightarrow> Inl e
         | Inr h' \<Rightarrow> Inr (h', map (\<lambda>entry. fst (snd entry)) all_questions)))"

definition analyze_all_pages :: "config \<Rightarrow> page_data list \<Rightarrow> py_error + question list" where
  "analyze_all_pages cfg pages =
     (case analyze_all_pages_refs cfg pages of
        Inl e \<Rightarrow> Inl e
      | Inr (h, refs) \<Rightarrow> Inr (map (\<lambda>r. h ! r) refs))"

text \<open>
  The pages as the pipeline builds them: the recognizer's lines of each page, merged by
  the line merger.
\<close>

definition mk_page :: "config \<Rightarrow> nat \<Rightarrow> line list \<Rightarrow> page_data" where
  "mk_page cfg h raw_lines = \<lparr>height = h, ocr = merge_same_line_texts cfg raw_lines\<rparr>"

section \<open>The default patterns on ASCII text (config.py, pattern\_matcher.py)\<close>

text \<open>
  The default configuration's patterns, for lines of ASCII text. The alternatives that
  need a character outside ASCII (the Chinese numerals of \<open>chinese_number_pattern\<close>, the
  full-width brackets, the question-type titles) cannot match such a line, so on ASCII
  text \<open>is_chinese_number_question\<close> is false and the \<open>question\<close> patterns reduce to
  \<open>^\d+\.\S+\<close>. Every test strips the text first, as the matcher does.
  The float operations of \<open>default_config\<close> do not round. It is used on the example
  pages only, whose coordinates are small integers and whose confidences are 1: there
  the float mean of a polygon's four y coordinates, the float mean of the confidences
  and the float differences are exact.
\<close>

definition is_space :: "char \<Rightarrow> bool" where
  "is_space c = (let k = (of_char c :: nat) in (9 \<le> k \<and> k \<le> 13) \<or> (28 \<le> k \<and> k \<le> 32))"

definition is_digit :: "char \<Rightarrow> bool" where
  "is_digit c = (let k = (of_char c :: nat) in 48 \<le> k \<and> k \<le> 57)"

definition strip :: "string \<Rightarrow> string" where
  "strip s = rev (dropWhile is_space (rev (dropWhile is_space s)))"

text \<open>\<open>int(digits)\<close> of a string of decimal digits.\<close>

definition digits_value :: "string \<Rightarrow> int" where
  "digits_value ds = foldl (\<lambda>a c. 10 * a + (int (of_char c) - 48)) 0 ds"

text \<open>\<open>^\d+\.\S+\<close> at the start of the text.\<close>

definition match_sub_question :: "string \<Rightarrow> bool" where
  "match_sub_question s =
     (takeWhile is_digit s \<noteq> [] \<and>
      (case dropWhile is_digit s of
         c1 # c2 # _ \<Rightarrow> c1 = CHR ''.'' \<and> \<not> is_space c2
       | _ \<Rightarrow> False))"

text \<open>\<open>^[(\)\[\]][0-9]+[)\]]\<close> at the start of the text.\<close>

definition match_nested :: "string \<Rightarrow> bool" where
  "match_nested s =
     (case s of
        [] \<Rightarrow> False
      | c # r \<Rightarrow>
          c \<in> set ''()[]'' \<and> takeWhile is_digit r \<noteq> [] \<and>
          (case dropWhile is_digit r of
             [] \<Rightarrow> False
           | c2 # _ \<Rightarrow> c2 \<in> set '')]''))"

text \<open>\<open>re.search\<close> of the same pattern: the number of the leftmost match.\<close>

fun search_nested_number :: "string \<Rightarrow> int option" where
  "search_nested_number [] = None"
| "search_nested_number (c # r) =
     (if match_nested (c # r) then Some (digits_value (takeWhile is_digit r))
      else search_nested_number r)"

definition default_config :: config where
  "default_config =
     \<lparr>is_chinese_number_question = (\<lambda>t. False),
      is_sub_question = (\<lambda>t. match_sub_question (strip t)),
      is_nested_sub_question = (\<lambda>t. match_nested (strip t)),
      extract_nested_sub_number = (\<lambda>t. search_nested_number (strip t)),
      matches_question = (\<lambda>t. match_sub_question (strip t)),
      prefer_chinese_primary = True,
      f_mean = exact_mean,
      f_sub = (\<lambda>a b. a - b)\<rparr>"

text \<open>A line with the axis-parallel box from \<open>(x0, y0)\<close> to \<open>(x1, y1)\<close>.\<close>

definition mk_line :: "rat \<Rightarrow> rat \<Rightarrow> rat \<Rightarrow> rat \<Rightarrow> string \<Rightarrow> line" where
  "mk_line x0 y0 x1 y1 txt =
     \<lparr>line_box = Box (x0, y0) [(x1, y0), (x1, y1), (x0, y1)],
      line_text = txt, confidence = 1\<rparr>"

section \<open>Example pages\<close>

text \<open>A page with a question, one nested item and a line of plain text.\<close>

definition page_a_lines :: "line list" where
  "page_a_lines = [mk_line 0 100 50 110 ''1.abc'', mk_line 0 120 50 130 ''(1) a'',
                   mk_line 0 140 50 150 ''text'']"

text \<open>
  Two tall fragments side by side, the second half a line lower, and two fragments of
  one line.
\<close>

definition frag_tall_a :: line where
  "frag_tall_a = mk_line 0 0 50 100 ''ab''"

definition frag_tall_b :: line where
  "frag_tall_b = mk_line 60 50 90 150 ''cd''"



text \<open>
  The state of the extractor on page 1 after the opening line \<open>1.abc\<close> at y = 100,
  a nested item \<open>(1) a\<close>, and pages on which it is the last line, is followed by plain
  text, or is followed by \<open>(2) b\<close>.
\<close>

definition open_state :: extractor_state where
  "open_state = \<lparr>heap = [new_question 100 ''1.abc'' 1 False Sub 10], questions = [],
                  seen_start_positions = {100}, current_question = Some 0,
                  is_chinese_open = False, cur_nested = []\<rparr>"

definition nested_line_1 :: line where
  "nested_line_1 = mk_line 0 120 50 130 ''(1) a''"

definition page_b_lines :: "line list" where
  "page_b_lines = [mk_line 0 100 50 110 ''1.abc'', mk_line 0 120 50 130 ''(1) a'']"

definition page_c_lines :: "line list" where
  "page_c_lines = [mk_line 0 100 50 110 ''1.abc'', mk_line 0 120 50 130 ''(1) a'',
                   mk_line 0 140 50 150 ''(2) b'']"

definition next_page_2 :: "nat \<rightharpoonup> line list" where
  "next_page_2 = Map.empty(2 \<mapsto> [mk_line 0 20 50 30 ''(2) b''])"

text \<open>
  A page on which the question \<open>1.abc\<close> has the nested items \<open>(1) a\<close> and \<open>(5) x\<close> and a
  line of plain text, before a page that starts with \<open>(2) b\<close>; and the state in which
  the extractor reaches the item \<open>(5) x\<close>, which is line 2 of the page.
\<close>

definition page_d_lines :: "line list" where
  "page_d_lines = [mk_line 0 100 50 110 ''1.abc'', mk_line 0 120 50 130 ''(1) a'',
                   mk_line 0 140 50 150 ''(5) x'', mk_line 0 160 50 170 ''text'']"

definition nested_line_5 :: line where
  "nested_line_5 = mk_line 0 140 50 150 ''(5) x''"

definition state_d :: extractor_state where
  "state_d = extract_lines default_config page_d_lines 1 next_page_2 2 0
               (take 2 page_d_lines) (init_state [])"

text \<open>
  Three fragments whose centers (105, 113, 121) are 8 apart from one to the next, and
  a fragment far below them.
\<close>

definition chain_a :: line where "chain_a = mk_line 0 100 40 110 ''a''"
definition chain_b :: line where "chain_b = mk_line 50 108 90 118 ''b''"
definition chain_c :: line where "chain_c = mk_line 100 116 140 126 ''c''"
definition far_line :: line where "far_line = mk_line 0 300 50 310 ''z''"

section \<open>Properties of the line merger\<close>



lemma py_max_Max: "xs \<noteq> [] \<Longrightarrow> py_max xs = Max (set xs)"
proof (cases xs)
  case (Cons a list)
  then show ?thesis using Max.set_eq_fold[of a list] by simp
qed simp




lemma py_max_in: "xs \<noteq> [] \<Longrightarrow> py_max xs \<in> set xs"
  by (simp add: py_max_Max)


lemma x_coords_points: "x_coords b = map fst (points b)"
  by (cases b) simp





lemma list_shape:
  obtains "c = []" | t where "c = [t]" | t1 t2 ts where "c = t1 # t2 # ts"
  by (cases c; cases "tl c") auto


lemma merge_line_texts_Some: "c \<noteq> [] \<Longrightarrow> \<exists>m. merge_line_texts cfg c = Some m"
  by (cases c rule: list_shape) (simp_all add: Let_def)





lemma append_merged_Some:
  "merge_line_texts cfg c = Some m \<Longrightarrow> append_merged cfg merged c = merged @ [m]"
  by (simp add: append_merged_def)

lemma chained_snoc:
  "c \<noteq> [] \<Longrightarrow> chained cfg (c @ [x]) = (chained cfg c \<and> close_to cfg x (last c))"
  by (induction cfg c rule: chained.induct) auto

lemma separated_snoc:
  "separated cfg (cs @ [c, d]) =
     (separated cfg (cs @ [c]) \<and> \<not> close_to cfg (hd d) (last c))"
  by (induction cfg cs rule: separated.induct) auto

lemma separated_last_hd:
  "hd c' = hd c \<Longrightarrow> separated cfg (cs @ [c']) = separated cfg (cs @ [c])"
  by (induction cfg cs rule: separated.induct) auto

lemma cluster_inv_step:
  assumes "cluster_inv cfg p st"
  shows "cluster_inv cfg (p @ [x]) (merge_step cfg x st)"
proof -
  obtain merged cur where st: "st = (merged, cur)" by (cases st)
  from assms st obtain cs where cs: "concat cs @ cur = map (info_of cfg) p" "[] \<notin> set cs"
    "list_all (chained cfg) cs" "chained cfg cur"
    "separated cfg (if cur = [] then cs else cs @ [cur])"
    "map (merge_line_texts cfg) cs = map Some merged" "p \<noteq> [] \<longrightarrow> cur \<noteq> []"
    by (auto simp: cluster_inv_def)
  show ?thesis
  proof (cases "cur = []")
    case True
    with cs(1,7) have "concat cs = []" by auto
    with cs(2) have "cs = []" by (cases cs) auto
    with True cs st show ?thesis
      by (auto simp: cluster_inv_def merge_step_def intro!: exI[of _ "[]"])
  next
    case False
    then obtain m where m: "merge_line_texts cfg cur = Some m"
      using merge_line_texts_Some by blast
    from False cs(5) have sep: "separated cfg (cs @ [cur])" by simp
    show ?thesis
    proof (cases "close_to cfg (info_of cfg x) (last cur)")
      case True
      then have step: "merge_step cfg x st = (merged, cur @ [info_of cfg x])"
        using False st by (simp add: merge_step_def close_to_def)
      have "chained cfg (cur @ [info_of cfg x])"
        using chained_snoc[OF False] cs(4) True by simp
      moreover have "separated cfg (cs @ [cur @ [info_of cfg x]])"
        using separated_last_hd[of "cur @ [info_of cfg x]" cur cfg cs] sep False by simp
      moreover have "concat cs @ cur @ [info_of cfg x] = map (info_of cfg) (p @ [x])"
        using cs(1) by simp
      ultimately show ?thesis
        unfolding cluster_inv_def step using cs(2,3,6) by (intro exI[of _ cs]) simp
    next
      case far: False
      have step: "merge_step cfg x st = (merged @ [m], [info_of cfg x])"
        using False far st by (simp add: merge_step_def close_to_def append_merged_Some[OF m])
      have "concat (cs @ [cur]) @ [info_of cfg x] = map (info_of cfg) (p @ [x])"
        using cs(1) by simp
      moreover have "[] \<notin> set (cs @ [cur])" using cs(2) False by simp
      moreover have "list_all (chained cfg) (cs @ [cur])" using cs(3,4) by simp
      moreover have "separated cfg ((cs @ [cur]) @ [[info_of cfg x]])"
        using separated_snoc[of cfg cs cur "[info_of cfg x]"] sep far by simp
      moreover have "map (merge_line_texts cfg) (cs @ [cur]) = map Some (merged @ [m])"
        using cs(6) m by simp
      ultimately show ?thesis
        unfolding cluster_inv_def step by (intro exI[of _ "cs @ [cur]"]) simp
    qed
  qed
qed

lemma cluster_inv_fold: "cluster_inv cfg p (fold (merge_step cfg) p ([], []))"
proof (induction p rule: rev_induct)
  case Nil
  show ?case by (simp add: cluster_inv_def)
next
  case (snoc x xs)
  then show ?case using cluster_inv_step by simp
qed

lemma merge_clusters:
  "\<exists>cs. is_clustering cfg (sorted_fragments cfg xs) cs \<and>
        map (merge_line_texts cfg) cs = map Some (merge_same_line_texts cfg xs)"
proof (cases "xs = []")
  case True
  then show ?thesis
    by (simp add: merge_same_line_texts_def is_clustering_def sorted_fragments_def)
next
  case False
  let ?p = "sort_key line_y_min xs"
  let ?st = "fold (merge_step cfg) ?p ([], [])"
  have "set ?p = set xs" by simp
  with False have pne: "?p \<noteq> []" by (metis set_empty)
  from cluster_inv_fold[of cfg ?p] pne obtain cs where
    cs: "concat cs @ snd ?st = map (info_of cfg) ?p"
    "[] \<notin> set cs" "list_all (chained cfg) cs" "chained cfg (snd ?st)"
    "separated cfg (cs @ [snd ?st])"
    "map (merge_line_texts cfg) cs = map Some (fst ?st)" "snd ?st \<noteq> []"
    by (auto simp: cluster_inv_def)
  from cs(7) obtain m where m: "merge_line_texts cfg (snd ?st) = Some m"
    using merge_line_texts_Some by blast
  have res: "merge_same_line_texts cfg xs = fst ?st @ [m]"
    using False cs(7) by (simp add: merge_same_line_texts_def Let_def append_merged_Some[OF m])
  show ?thesis
    using cs m unfolding res is_clustering_def sorted_fragments_def
    by (intro exI[of _ "cs @ [snd ?st]"]) simp
qed


lemma clustering_unique:
  assumes "is_clustering cfg p cs"
  shows "cs = group_lines cfg p"
  using assms
proof (induction cfg p arbitrary: cs rule: group_lines.induct)
  case (1 cfg)
  then show ?case by (cases cs) (auto simp: is_clustering_def)
next
  case (2 cfg t)
  then obtain c cs' where cs: "cs = c # cs'" by (cases cs) (auto simp: is_clustering_def)
  with 2 have "c \<noteq> []" "c @ concat cs' = [t]" "[] \<notin> set cs'"
    by (auto simp: is_clustering_def)
  then have "c = [t]" "concat cs' = []" by (cases c; simp)+
  with \<open>[] \<notin> set cs'\<close> have "cs' = []" by (cases cs') auto
  with cs \<open>c = [t]\<close> show ?case by simp
next
  case (3 cfg t u rest)
  then obtain c cs' where cs: "cs = c # cs'" by (cases cs) (auto simp: is_clustering_def)
  with 3(3) have p: "c \<noteq> []" "c @ concat cs' = t # u # rest" "[] \<notin> set cs'"
    "chained cfg c" "list_all (chained cfg) cs'" "separated cfg (c # cs')"
    by (auto simp: is_clustering_def)
  from p(1,2) obtain c' where c: "c = t # c'" and r: "c' @ concat cs' = u # rest"
    by (cases c) auto
  show ?case
  proof (cases c')
    case Nil
    with r have cc: "concat cs' = u # rest" by simp
    then obtain d ds where ds: "cs' = d # ds" by (cases cs') auto
    with p(3) cc have hd: "hd d = u" by (cases d) auto
    from p(6) c Nil ds hd have far: "\<not> close_to cfg u t" and sep: "separated cfg cs'"
      by auto
    have "is_clustering cfg (u # rest) cs'"
      using cc p(3,5) sep by (simp add: is_clustering_def)
    from 3(2)[OF far this, symmetric] far cs c Nil show ?thesis by simp
  next
    case (Cons u' c'')
    with r have u': "u' = u" by simp
    from p(4) c Cons u' have near: "close_to cfg u t" and ch: "chained cfg c'" by auto
    have "last c = last c'" using c Cons by simp
    with p(6) have sep: "separated cfg (c' # cs')" by (cases cs') auto
    have "is_clustering cfg (u # rest) (c' # cs')"
      using r p(3,5) ch sep Cons by (simp add: is_clustering_def)
    from 3(1)[OF near this, symmetric] near cs c show ?thesis by simp
  qed
qed

lemma merge_group_lines:
  "is_clustering cfg (sorted_fragments cfg xs) (group_lines cfg (sorted_fragments cfg xs)) \<and>
   map Some (merge_same_line_texts cfg xs) =
     map (merge_line_texts cfg) (group_lines cfg (sorted_fragments cfg xs))"
proof -
  from merge_clusters[of cfg xs] obtain cs where
    cs: "is_clustering cfg (sorted_fragments cfg xs) cs"
    "map (merge_line_texts cfg) cs = map Some (merge_same_line_texts cfg xs)" by blast
  from clustering_unique[OF cs(1)] cs show ?thesis by simp
qed





text \<open>
  C6 (as the code has it). The fragments are read in ascending order of their top
  coordinate, and the output lines are the merged lines of the groups that the grouping
  rule makes of them: a fragment stays on the line of the fragment read just before it
  exactly when the absolute value of the float difference of their centers is at most
  the fixed threshold 10.0, the center being \<open>np.mean\<close> of the polygon's y coordinates.
  So the groups are a clustering: inside a line each fragment is within the threshold of
  the one before it, and the first fragment of a line is not within the threshold of
  the last fragment of the line before. Neither the page's line heights nor the overlap
  of the spans is read.
\<close>

theorem same_line_fixed_threshold:
  "map Some (merge_same_line_texts cfg xs) =
     map (merge_line_texts cfg) (group_lines cfg (sorted_fragments cfg xs))
   \<and> is_clustering cfg (sorted_fragments cfg xs) (group_lines cfg (sorted_fragments cfg xs))
   \<and> close_to cfg (info_of cfg a) (info_of cfg b) =
       (\<bar>f_sub cfg (f_mean cfg (y_coords (line_box a))) (f_mean cfg (y_coords (line_box b)))\<bar>
          \<le> 10)"
  using merge_group_lines[of cfg xs]
  by (simp add: close_to_def line_y_threshold_def info_of_def)

text \<open>
  On a page: three fragments whose centers are 8 apart from one to the next are one
  line, though the first and the third are 16 apart; the fragment far below is a line
  of its own.
\<close>

theorem same_line_fixed_threshold_witness:
  "map Some (merge_same_line_texts default_config [chain_c, far_line, chain_a, chain_b]) =
     map (merge_line_texts default_config)
       [[info_of default_config chain_a, info_of default_config chain_b,
         info_of default_config chain_c],
        [info_of default_config far_line]]"
proof -
  have g: "group_lines default_config
             (sorted_fragments default_config [chain_c, far_line, chain_a, chain_b]) =
           [[info_of default_config chain_a, info_of default_config chain_b,
             info_of default_config chain_c],
            [info_of default_config far_line]]"
    by code_simp
  from same_line_fixed_threshold[of default_config "[chain_c, far_line, chain_a, chain_b]"]
  show ?thesis unfolding g by blast
qed

text \<open>
  The rule of the specification does not describe the code: the two tall fragments are
  on one line by the specification's rule (their centers differ by 50, less than 0.8
  times the average height 100, and their spans overlap by half), and the merger keeps
  them apart.
\<close>

theorem spec_same_line_counterexample:
  "\<not> (length (merge_same_line_texts default_config [frag_tall_a, frag_tall_b]) = 1 \<longleftrightarrow>
        spec_same_line [frag_tall_a, frag_tall_b] frag_tall_a frag_tall_b)"
  by code_simp


section \<open>Properties of the nested-item lookahead\<close>

lemma scan_early_some:
  "fst (snd (scan_current_page cfg n ls (f, Some v, et, c))) = Some v"
  by (induction ls arbitrary: f et c) (auto simp: Let_def)

lemma scan_early_none:
  "fst (snd (scan_current_page cfg n ls (f, None, et, c))) = Some e
     \<Longrightarrow> ls \<noteq> [] \<and> e = py_int (line_y_min (hd ls))"
  by (cases ls) (auto simp: Let_def scan_early_some split: if_splits)

lemma scan_text_some:
  "fst (snd (snd (scan_current_page cfg n ls (f, Some v, et, c)))) = et"
  by (induction ls arbitrary: f c) (auto simp: Let_def)

lemma scan_text_none:
  "fst (snd (scan_current_page cfg n ls (f, None, et, c))) = Some e
     \<Longrightarrow> fst (snd (snd (scan_current_page cfg n ls (f, None, et, c))))
           = Some (take 30 (line_text (hd ls)))"
  by (cases ls) (auto simp: Let_def scan_text_some split: if_splits)

lemma check_text_cases:
  "la_early_end_text (check_next_nested_sub_question cfg idx ocr_result n page_num all_pages total_pages)
     = (if la_cross_page (check_next_nested_sub_question cfg idx ocr_result n page_num all_pages total_pages)
        then None
        else fst (snd (snd (scan_current_page cfg (n + 1)
              (take (min 3 (length ocr_result - idx - 1)) (drop (idx + 1) ocr_result))
              (False, None, None, 0)))))"
proof -
  define res where "res = scan_current_page cfg (n + 1)
              (take (min 3 (length ocr_result - idx - 1)) (drop (idx + 1) ocr_result))
              (False, None, None, 0)"
  show ?thesis
    unfolding check_next_nested_sub_question_def Let_def res_def[symmetric]
    by (simp split: option.split)
qed

lemma check_early_cases:
  "la_early_end_y (check_next_nested_sub_question cfg idx ocr_result n page_num all_pages total_pages)
     = None \<and>
   (la_cross_page (check_next_nested_sub_question cfg idx ocr_result n page_num all_pages total_pages)
     \<or> fst (snd (scan_current_page cfg (n + 1)
              (take (min 3 (length ocr_result - idx - 1)) (drop (idx + 1) ocr_result))
              (False, None, None, 0))) = None)
   \<or>
   \<not> la_cross_page (check_next_nested_sub_question cfg idx ocr_result n page_num all_pages total_pages) \<and>
   la_early_end_y (check_next_nested_sub_question cfg idx ocr_result n page_num all_pages total_pages)
     = fst (snd (scan_current_page cfg (n + 1)
              (take (min 3 (length ocr_result - idx - 1)) (drop (idx + 1) ocr_result))
              (False, None, None, 0)))"
proof -
  define res where "res = scan_current_page cfg (n + 1)
              (take (min 3 (length ocr_result - idx - 1)) (drop (idx + 1) ocr_result))
              (False, None, None, 0)"
  show ?thesis
    unfolding check_next_nested_sub_question_def Let_def res_def[symmetric]
    by (simp split: option.split)
qed

text \<open>
  C10. A provisional early end returned by the lookahead is always the truncated top
  coordinate of the line that directly follows the nested item on the same page, and
  its text is the first 30 characters of that line. The lines of the next page never
  produce one: whatever the other pages hold, the lookahead returns either this same
  value and text or none, and a lookahead that reports a page crossing carries no early
  end.
\<close>

theorem lookahead_early_end_same_page:
  assumes "la_early_end_y (check_next_nested_sub_question cfg idx ocr_result n page_num
             all_pages total_pages) = Some e"
  shows "Suc idx < length ocr_result \<and> e = py_int (line_y_min (ocr_result ! Suc idx))
       \<and> \<not> la_cross_page (check_next_nested_sub_question cfg idx ocr_result n page_num
               all_pages total_pages)
       \<and> la_early_end_y (check_next_nested_sub_question cfg idx ocr_result n page_num
               all_pages' total_pages') \<in> {None, Some e}
       \<and> la_early_end_text (check_next_nested_sub_question cfg idx ocr_result n page_num
               all_pages total_pages) = Some (take 30 (line_text (ocr_result ! Suc idx)))
       \<and> la_early_end_text (check_next_nested_sub_question cfg idx ocr_result n page_num
               all_pages' total_pages')
           \<in> {None, Some (take 30 (line_text (ocr_result ! Suc idx)))}"
proof -
  let ?w = "take (min 3 (length ocr_result - idx - 1)) (drop (idx + 1) ocr_result)"
  let ?s = "fst (snd (scan_current_page cfg (n + 1) ?w (False, None, None, 0)))"
  from assms check_early_cases[of cfg idx ocr_result n page_num all_pages total_pages]
  have nc: "\<not> la_cross_page (check_next_nested_sub_question cfg idx ocr_result n page_num
              all_pages total_pages)"
    and s: "?s = Some e" by auto
  from scan_early_none[OF s] have w: "?w \<noteq> []" and e: "e = py_int (line_y_min (hd ?w))"
    by auto
  from w have lt: "Suc idx < length ocr_result" by auto
  then have hd: "hd ?w = ocr_result ! Suc idx" by (simp add: hd_drop_conv_nth)
  with e have e': "e = py_int (line_y_min (ocr_result ! Suc idx))" by simp
  from check_early_cases[of cfg idx ocr_result n page_num all_pages' total_pages'] s
  have other: "la_early_end_y (check_next_nested_sub_question cfg idx ocr_result n page_num
          all_pages' total_pages') \<in> {None, Some e}"
    by auto
  from scan_text_none[OF s] hd
  have t: "fst (snd (snd (scan_current_page cfg (n + 1) ?w (False, None, None, 0))))
             = Some (take 30 (line_text (ocr_result ! Suc idx)))" by simp
  have tx: "la_early_end_text (check_next_nested_sub_question cfg idx ocr_result n page_num
               all_pages total_pages) = Some (take 30 (line_text (ocr_result ! Suc idx)))"
    using check_text_cases[of cfg idx ocr_result n page_num all_pages total_pages] nc t
    by simp
  have tx': "la_early_end_text (check_next_nested_sub_question cfg idx ocr_result n page_num
               all_pages' total_pages')
           \<in> {None, Some (take 30 (line_text (ocr_result ! Suc idx)))}"
    using check_text_cases[of cfg idx ocr_result n page_num all_pages' total_pages'] t
    by simp
  from lt e' nc other tx tx' show ?thesis by simp
qed

lemma page_a_early:
  "la_early_end_y (check_next_nested_sub_question default_config 1 page_a_lines 1 1
      (Map.empty(2 \<mapsto> [mk_line 0 20 50 30 ''more''])) 2) = Some 140"
  by code_simp

theorem lookahead_early_end_same_page_witness:
  "la_early_end_y (check_next_nested_sub_question default_config 1 page_a_lines 1 1
      (Map.empty(2 \<mapsto> [mk_line 0 20 50 30 ''more''])) 2) = Some 140
   \<and> Suc 1 < length page_a_lines
   \<and> (140::int) = py_int (line_y_min (page_a_lines ! Suc 1))
   \<and> la_early_end_y (check_next_nested_sub_question default_config 1 page_a_lines 1 1
        (Map.empty(2 \<mapsto> [mk_line 0 20 50 30 ''(2) b''])) 2) \<in> {None, Some 140}
   \<and> la_early_end_text (check_next_nested_sub_question default_config 1 page_a_lines 1 1
        (Map.empty(2 \<mapsto> [mk_line 0 20 50 30 ''more''])) 2)
        = Some (take 30 (line_text (page_a_lines ! Suc 1)))"
  using lookahead_early_end_same_page[OF page_a_early,
          of "Map.empty(2 \<mapsto> [mk_line 0 20 50 30 ''(2) b''])" 2] page_a_early
  by simp

section \<open>The extractor on a nested item\<close>


lemma scan_current_page_match:
  "\<exists>l\<in>set w. matches_next cfg n l \<Longrightarrow>
   fst (scan_current_page cfg (n + 1) w (f, ey, et, c))"
proof (induction w arbitrary: f ey et c)
  case Nil
  then show ?case by simp
next
  case (Cons a w)
  show ?case
  proof (cases "matches_next cfg n a")
    case True
    then show ?thesis by (simp add: matches_next_def Let_def)
  next
    case False
    with Cons.prems have "\<exists>l\<in>set w. matches_next cfg n l" by auto
    from Cons.IH[OF this] False show ?thesis by (auto simp: matches_next_def Let_def)
  qed
qed

lemma scan_current_page_no_match:
  "\<forall>l\<in>set w. \<not> matches_next cfg n l \<Longrightarrow>
   scan_current_page cfg (n + 1) w (f, ey, et, c) =
     (f,
      (if ey = None then (case w of [] \<Rightarrow> None | l # _ \<Rightarrow> Some (py_int (line_y_min l))) else ey),
      (if ey = None then (case w of [] \<Rightarrow> et | l # _ \<Rightarrow> Some (take 30 (line_text l))) else et),
      c + length w)"
proof (induction w arbitrary: f ey et c)
  case Nil
  then show ?case by simp
next
  case (Cons a w)
  then show ?case by (cases ey) (auto simp: Let_def matches_next_def)
qed

lemma scan_next_page_iff:
  "scan_next_page cfg (n + 1) ls = (\<exists>l\<in>set ls. matches_next cfg n l)"
  by (induction ls) (auto simp: matches_next_def)

lemma window_eq:
  "take (min 3 (length ocr_result - idx - 1)) (drop (idx + 1) ocr_result) = lookahead_window idx ocr_result"
  by (simp add: lookahead_window_def min_def)

lemma check_found:
  assumes "\<exists>l\<in>set (lookahead_window idx ocr_result). matches_next cfg n l"
  shows "found_next_nested (check_next_nested_sub_question cfg idx ocr_result n page_num all_pages total_pages)
       \<and> \<not> la_cross_page (check_next_nested_sub_question cfg idx ocr_result n page_num all_pages total_pages)"
proof -
  define res where "res = scan_current_page cfg (n + 1) (lookahead_window idx ocr_result) (False, None, None, 0)"
  have "fst res" unfolding res_def by (rule scan_current_page_match[OF assms])
  then show ?thesis
    unfolding check_next_nested_sub_question_def Let_def window_eq res_def[symmetric]
    by simp
qed

lemma check_cross:
  assumes "crosses_page cfg idx ocr_result n page_num all_pages total_pages"
  shows "check_next_nested_sub_question cfg idx ocr_result n page_num all_pages total_pages =
     \<lparr>found_next_nested = True, la_cross_page = True, la_cross_page_to = Some (page_num + 1),
      la_early_end_y = None, la_early_end_text = None\<rparr>"
proof -
  define w where "w = lookahead_window idx ocr_result"
  from assms have nm: "\<forall>l\<in>set w. \<not> matches_next cfg n l" and len: "length w < 3"
    and tp: "page_num + 1 \<le> total_pages"
    and np: "case all_pages (page_num + 1) of None \<Rightarrow> False
       | Some next_page_ocr \<Rightarrow> \<exists>l\<in>set (take (3 - length w) next_page_ocr). matches_next cfg n l"
    unfolding crosses_page_def w_def by auto
  from np obtain npo where npo: "all_pages (page_num + 1) = Some npo"
    and ex: "\<exists>l\<in>set (take (3 - length w) npo). matches_next cfg n l"
    by (cases "all_pages (page_num + 1)") auto
  have tk: "take (min (3 - length w) (length npo)) npo = take (3 - length w) npo"
    by (simp add: min_def)
  have res: "scan_current_page cfg (n + 1) w (False, None, None, 0) =
      (False, (case w of [] \<Rightarrow> None | l # _ \<Rightarrow> Some (py_int (line_y_min l))),
       (case w of [] \<Rightarrow> None | l # _ \<Rightarrow> Some (take 30 (line_text l))), length w)"
    using scan_current_page_no_match[OF nm, of False None None 0] by simp
  show ?thesis
    unfolding check_next_nested_sub_question_def Let_def window_eq w_def[symmetric] res
    using len tp npo ex by (simp add: scan_next_page_iff tk)
qed

lemma check_plain:
  assumes "\<forall>l\<in>set (lookahead_window idx ocr_result). \<not> matches_next cfg n l"
    and "\<not> crosses_page cfg idx ocr_result n page_num all_pages total_pages"
  shows "check_next_nested_sub_question cfg idx ocr_result n page_num all_pages total_pages =
     \<lparr>found_next_nested = False, la_cross_page = False, la_cross_page_to = None,
      la_early_end_y = (case lookahead_window idx ocr_result of [] \<Rightarrow> None
                        | l # _ \<Rightarrow> Some (py_int (line_y_min l))),
      la_early_end_text = (case lookahead_window idx ocr_result of [] \<Rightarrow> None
                        | l # _ \<Rightarrow> Some (take 30 (line_text l)))\<rparr>"
proof -
  define w where "w = lookahead_window idx ocr_result"
  from assms(1) have nm: "\<forall>l\<in>set w. \<not> matches_next cfg n l" unfolding w_def .
  have res: "scan_current_page cfg (n + 1) w (False, None, None, 0) =
      (False, (case w of [] \<Rightarrow> None | l # _ \<Rightarrow> Some (py_int (line_y_min l))),
       (case w of [] \<Rightarrow> None | l # _ \<Rightarrow> Some (take 30 (line_text l))), length w)"
    using scan_current_page_no_match[OF nm, of False None None 0] by simp
  have tk: "\<And>npo. take (min (3 - length w) (length npo)) npo = take (3 - length w) npo"
    by (simp add: min_def)
  from assms(2) nm have nc: "\<not> (length w < 3 \<and> page_num + 1 \<le> total_pages \<and>
      (case all_pages (page_num + 1) of None \<Rightarrow> False
       | Some next_page_ocr \<Rightarrow> \<exists>l\<in>set (take (3 - length w) next_page_ocr). matches_next cfg n l))"
    unfolding crosses_page_def w_def by blast
  show ?thesis
    unfolding check_next_nested_sub_question_def Let_def window_eq w_def[symmetric] res
    using nc by (auto simp: scan_next_page_iff tk split: option.splits)
qed


lemma upd_q_nth: "r < length h \<Longrightarrow> upd_q r f h ! r = f (h ! r)"
  by (simp add: upd_q_def)

lemma upd_q_length: "length (upd_q r f h) = length h"
  by (simp add: upd_q_def)

lemma extract_step_nested:
  assumes "\<not> is_chinese_number_question cfg (line_text line_data)"
    "\<not> is_sub_question cfg (line_text line_data)"
    "is_nested_sub_question cfg (line_text line_data)"
    "extract_nested_sub_number cfg (line_text line_data) = Some n"
    "current_question st = Some r"
  shows "extract_step cfg ocr_result page_num all_pages total_pages idx line_data st =
    (let nested = cur_nested st @ [n];
         h1 = upd_q r (\<lambda>q. q\<lparr>nested_sub_numbers := nested\<rparr>) (heap st);
         early_end_info = check_next_nested_sub_question cfg idx ocr_result n page_num all_pages total_pages;
         h2 = (if la_cross_page early_end_info
               then upd_q r (\<lambda>q. q\<lparr>cross_page := True,
                       cross_page_to := la_cross_page_to early_end_info\<rparr>) h1
               else h1);
         h3 = (if \<not> found_next_nested early_end_info then
                 (if cross_page (h2 ! r) then h2
                  else (case la_early_end_y early_end_info of
                          None \<Rightarrow> h2
                        | Some e \<Rightarrow> record_early_end r e (la_early_end_text early_end_info) h2))
               else h2)
     in st\<lparr>heap := h3, cur_nested := nested\<rparr>)"
  using assms unfolding extract_step_def by (simp add: Let_def)

text \<open>
  The rule of the specification does not describe the code. On page 1 of the example
  the item \<open>(1) a\<close> is followed by \<open>(2) b\<close> on page 2, which marks the question
  \<open>cross_page\<close>. At the item \<open>(5) x\<close> the lookahead finds no \<open>(6)\<close> and crosses no page,
  and the first line of its window lies at y = 160, strictly below the question's start
  at y = 100, with no early end recorded so far: by the rule of the specification 160
  is recorded. The extractor records nothing, at that step and in its result.
\<close>

theorem nested_early_end_counterexample:
  "current_question state_d = Some 0
   \<and> start_y (heap state_d ! 0) = 100 \<and> early_end_y (heap state_d ! 0) = None
   \<and> \<not> found_next_nested (check_next_nested_sub_question default_config 2 page_d_lines 5 1
                             next_page_2 2)
   \<and> \<not> la_cross_page (check_next_nested_sub_question default_config 2 page_d_lines 5 1
                         next_page_2 2)
   \<and> map (\<lambda>l. py_int (line_y_min l)) (lookahead_window 2 page_d_lines) = [160]
   \<and> early_end_y (heap (extract_step default_config page_d_lines 1 next_page_2 2 2
                          nested_line_5 state_d) ! 0) \<noteq> Some 160
   \<and> map early_end_y (fst (extract_question_positions default_config [] page_d_lines 1
                             next_page_2 2)) = [None]"
  by code_simp

text \<open>
  C8 (as the code has it). On a nested item with number \<open>n\<close>, under an open question
  \<open>q\<close>, with \<open>w\<close> the lines of the current page in the three-line window:
  if \<open>n + 1\<close> is found only among the lines of the next page that complete the window,
  the question is marked \<open>cross_page\<close> with \<open>cross_page_to\<close> the next page, and its
  early end is left as it was;
  if \<open>n + 1\<close> is not found, no page crossing applies and the question is not marked
  \<open>cross_page\<close>, then the truncated top coordinate \<open>e\<close> of the first line of \<open>w\<close> is
  recorded as early end exactly when \<open>e > start_y\<close> and no early end is recorded yet or
  \<open>e\<close> is below the recorded one (an empty window records nothing);
  if \<open>n + 1\<close> is found on the current page, only the list of nested numbers changes;
  and if \<open>n + 1\<close> is not found, no page crossing applies and the question is already
  marked \<open>cross_page\<close>, again only the list of nested numbers changes.
\<close>

theorem nested_lookahead_outcome:
  fixes cfg :: config and ocr_result :: "line list" and page_num total_pages idx :: nat
    and all_pages :: "nat \<rightharpoonup> line list" and line_data :: line
    and st :: extractor_state and r :: ref and n :: int
  assumes "\<not> is_chinese_number_question cfg (line_text line_data)"
    and "\<not> is_sub_question cfg (line_text line_data)"
    and "is_nested_sub_question cfg (line_text line_data)"
    and "extract_nested_sub_number cfg (line_text line_data) = Some n"
    and "current_question st = Some r" and "r < length (heap st)"
  defines "q \<equiv> heap st ! r"
    and "q' \<equiv> heap (extract_step cfg ocr_result page_num all_pages total_pages idx
                       line_data st) ! r"
    and "w \<equiv> lookahead_window idx ocr_result"
  shows "(crosses_page cfg idx ocr_result n page_num all_pages total_pages \<longrightarrow>
            cross_page q' \<and> cross_page_to q' = Some (page_num + 1) \<and>
            early_end_y q' = early_end_y q \<and> early_end_text q' = early_end_text q)
       \<and> ((\<forall>l\<in>set w. \<not> matches_next cfg n l) \<and>
           \<not> crosses_page cfg idx ocr_result n page_num all_pages total_pages \<and>
           \<not> cross_page q \<longrightarrow>
            (case w of
               [] \<Rightarrow> early_end_y q' = early_end_y q \<and> early_end_text q' = early_end_text q
             | l # _ \<Rightarrow>
                 (let e = py_int (line_y_min l);
                      accept = (start_y q < e \<and>
                                (case early_end_y q of None \<Rightarrow> True
                                 | Some existing \<Rightarrow> e < existing))
                  in early_end_y q' = (if accept then Some e else early_end_y q) \<and>
                     early_end_text q' =
                       (if accept then Some (take 30 (line_text l)) else early_end_text q))))
       \<and> ((\<exists>l\<in>set w. matches_next cfg n l) \<longrightarrow>
            q' = q\<lparr>nested_sub_numbers := cur_nested st @ [n]\<rparr>)
       \<and> ((\<forall>l\<in>set w. \<not> matches_next cfg n l) \<and>
           \<not> crosses_page cfg idx ocr_result n page_num all_pages total_pages \<and>
           cross_page q \<longrightarrow>
            q' = q\<lparr>nested_sub_numbers := cur_nested st @ [n]\<rparr>)"
proof (intro conjI impI)
  note step = extract_step_nested[OF assms(1-5), of ocr_result page_num all_pages total_pages idx]
  let ?h1 = "upd_q r (\<lambda>q. q\<lparr>nested_sub_numbers := cur_nested st @ [n]\<rparr>) (heap st)"
  have h1r: "?h1 ! r = q\<lparr>nested_sub_numbers := cur_nested st @ [n]\<rparr>"
    using assms(6) by (simp add: upd_q_nth q_def)
  have l1: "r < length ?h1" using assms(6) by (simp add: upd_q_length)
  {
    assume c: "crosses_page cfg idx ocr_result n page_num all_pages total_pages"
    have q'eq: "q' = q\<lparr>nested_sub_numbers := cur_nested st @ [n], cross_page := True,
                       cross_page_to := Some (page_num + 1)\<rparr>"
      unfolding q'_def step Let_def check_cross[OF c]
      using l1 h1r by (simp add: upd_q_nth)
    show "cross_page q'" "cross_page_to q' = Some (page_num + 1)"
      "early_end_y q' = early_end_y q" "early_end_text q' = early_end_text q"
      unfolding q'eq by simp_all
  }
  {
    assume a: "(\<forall>l\<in>set w. \<not> matches_next cfg n l) \<and>
           \<not> crosses_page cfg idx ocr_result n page_num all_pages total_pages \<and>
           \<not> cross_page q"
    then have nm: "\<forall>l\<in>set (lookahead_window idx ocr_result). \<not> matches_next cfg n l"
      and nc: "\<not> crosses_page cfg idx ocr_result n page_num all_pages total_pages"
      and ncp: "\<not> cross_page q" unfolding w_def by auto
    show "case w of
               [] \<Rightarrow> early_end_y q' = early_end_y q \<and> early_end_text q' = early_end_text q
             | l # _ \<Rightarrow>
                 (let e = py_int (line_y_min l);
                      accept = (start_y q < e \<and>
                                (case early_end_y q of None \<Rightarrow> True
                                 | Some existing \<Rightarrow> e < existing))
                  in early_end_y q' = (if accept then Some e else early_end_y q) \<and>
                     early_end_text q' =
                       (if accept then Some (take 30 (line_text l)) else early_end_text q))"
    proof (cases w)
      case Nil
      then have "lookahead_window idx ocr_result = []" unfolding w_def .
      then show ?thesis
        unfolding q'_def step Let_def check_plain[OF nm nc] Nil
        using h1r ncp by simp
    next
      case (Cons l ls)
      then have weq: "lookahead_window idx ocr_result = l # ls" unfolding w_def .
      show ?thesis
        unfolding q'_def step Let_def check_plain[OF nm nc] Cons weq
        using h1r ncp l1
        by (cases "early_end_y q") (auto simp: record_early_end_def Let_def upd_q_nth)
    qed
  }
  {
    assume "\<exists>l\<in>set w. matches_next cfg n l"
    then have ex: "\<exists>l\<in>set (lookahead_window idx ocr_result). matches_next cfg n l"
      unfolding w_def .
    from check_found[OF ex, of page_num all_pages total_pages]
    show "q' = q\<lparr>nested_sub_numbers := cur_nested st @ [n]\<rparr>"
      unfolding q'_def step Let_def using h1r by simp
  }
  {
    assume a: "(\<forall>l\<in>set w. \<not> matches_next cfg n l) \<and>
           \<not> crosses_page cfg idx ocr_result n page_num all_pages total_pages \<and>
           cross_page q"
    then have nm: "\<forall>l\<in>set (lookahead_window idx ocr_result). \<not> matches_next cfg n l"
      and nc: "\<not> crosses_page cfg idx ocr_result n page_num all_pages total_pages"
      and cp: "cross_page q" unfolding w_def by auto
    show "q' = q\<lparr>nested_sub_numbers := cur_nested st @ [n]\<rparr>"
      unfolding q'_def step Let_def check_plain[OF nm nc]
      using h1r cp by simp
  }
qed


lemma nested_line_5_facts:
  "\<not> is_chinese_number_question default_config (line_text nested_line_5)"
  "\<not> is_sub_question default_config (line_text nested_line_5)"
  "is_nested_sub_question default_config (line_text nested_line_5)"
  "extract_nested_sub_number default_config (line_text nested_line_5) = Some 5"
  "current_question state_d = Some 0"
  "0 < length (heap state_d)"
  by code_simp+

lemma nested_line_1_facts:
  "\<not> is_chinese_number_question default_config (line_text nested_line_1)"
  "\<not> is_sub_question default_config (line_text nested_line_1)"
  "is_nested_sub_question default_config (line_text nested_line_1)"
  "extract_nested_sub_number default_config (line_text nested_line_1) = Some 1"
  "current_question open_state = Some 0"
  "0 < length (heap open_state)"
  by code_simp+

theorem nested_lookahead_outcome_witness:
  "(cross_page (heap (extract_step default_config page_b_lines 1 next_page_2 2 1
                          nested_line_1 open_state) ! 0)
    \<and> cross_page_to (heap (extract_step default_config page_b_lines 1 next_page_2 2 1
                          nested_line_1 open_state) ! 0) = Some 2
    \<and> early_end_y (heap (extract_step default_config page_b_lines 1 next_page_2 2 1
                          nested_line_1 open_state) ! 0) = None)
   \<and> (early_end_y (heap (extract_step default_config page_a_lines 1 Map.empty 1 1
                          nested_line_1 open_state) ! 0) = Some 140
    \<and> early_end_text (heap (extract_step default_config page_a_lines 1 Map.empty 1 1
                          nested_line_1 open_state) ! 0) = Some ''text'')
   \<and> (heap (extract_step default_config page_c_lines 1 next_page_2 2 1
               nested_line_1 open_state) ! 0
        = (heap open_state ! 0)\<lparr>nested_sub_numbers := cur_nested open_state @ [1]\<rparr>)
   \<and> (cross_page (heap state_d ! 0)
    \<and> heap (extract_step default_config page_d_lines 1 next_page_2 2 2
               nested_line_5 state_d) ! 0
        = (heap state_d ! 0)\<lparr>nested_sub_numbers := cur_nested state_d @ [5]\<rparr>)"
proof -
  note f = nested_line_1_facts
  have q: "early_end_y (heap open_state ! 0) = None" "start_y (heap open_state ! 0) = 100"
    "early_end_text (heap open_state ! 0) = None"
    by code_simp+
  have b: "crosses_page default_config 1 page_b_lines 1 1 next_page_2 2" by code_simp
  from nested_lookahead_outcome[OF f, where ocr_result = page_b_lines and page_num = 1
         and all_pages = next_page_2 and total_pages = 2 and idx = 1] b q
  have 1: "cross_page (heap (extract_step default_config page_b_lines 1 next_page_2 2 1
                          nested_line_1 open_state) ! 0)
    \<and> cross_page_to (heap (extract_step default_config page_b_lines 1 next_page_2 2 1
                          nested_line_1 open_state) ! 0) = Some 2
    \<and> early_end_y (heap (extract_step default_config page_b_lines 1 next_page_2 2 1
                          nested_line_1 open_state) ! 0) = None"
    by simp
  have a: "\<forall>l\<in>set (lookahead_window 1 page_a_lines). \<not> matches_next default_config 1 l"
    "\<not> crosses_page default_config 1 page_a_lines 1 1 Map.empty 1"
    "\<not> cross_page (heap open_state ! 0)"
    by code_simp+
  have w: "lookahead_window 1 page_a_lines = [mk_line 0 140 50 150 ''text'']" by code_simp
  have e: "py_int (line_y_min (mk_line 0 140 50 150 ''text'')) = 140"
    "take 30 (line_text (mk_line 0 140 50 150 ''text'')) = ''text''" by code_simp+
  from nested_lookahead_outcome[OF f, where ocr_result = page_a_lines and page_num = 1
         and all_pages = Map.empty and total_pages = 1 and idx = 1] a
  have "case lookahead_window 1 page_a_lines of
          [] \<Rightarrow> early_end_y (heap (extract_step default_config page_a_lines 1 Map.empty 1
                   1 nested_line_1 open_state) ! 0) = early_end_y (heap open_state ! 0) \<and>
                early_end_text (heap (extract_step default_config page_a_lines 1 Map.empty
                   1 1 nested_line_1 open_state) ! 0) = early_end_text (heap open_state ! 0)
        | l # _ \<Rightarrow>
           (let e = py_int (line_y_min l);
                accept = (start_y (heap open_state ! 0) < e \<and>
                          (case early_end_y (heap open_state ! 0) of None \<Rightarrow> True
                           | Some existing \<Rightarrow> e < existing))
            in early_end_y (heap (extract_step default_config page_a_lines 1 Map.empty 1
                   1 nested_line_1 open_state) ! 0)
                 = (if accept then Some e else early_end_y (heap open_state ! 0)) \<and>
               early_end_text (heap (extract_step default_config page_a_lines 1 Map.empty
                   1 1 nested_line_1 open_state) ! 0)
                 = (if accept then Some (take 30 (line_text l))
                    else early_end_text (heap open_state ! 0)))"
    by blast
  then have 2: "early_end_y (heap (extract_step default_config page_a_lines 1 Map.empty 1 1
                          nested_line_1 open_state) ! 0) = Some 140
    \<and> early_end_text (heap (extract_step default_config page_a_lines 1 Map.empty 1 1
                          nested_line_1 open_state) ! 0) = Some ''text''"
    unfolding w by (simp add: Let_def q e)
  have c: "\<exists>l\<in>set (lookahead_window 1 page_c_lines). matches_next default_config 1 l"
    by code_simp
  from nested_lookahead_outcome[OF f, where ocr_result = page_c_lines and page_num = 1
         and all_pages = next_page_2 and total_pages = 2 and idx = 1] c
  have 3: "heap (extract_step default_config page_c_lines 1 next_page_2 2 1
               nested_line_1 open_state) ! 0
        = (heap open_state ! 0)\<lparr>nested_sub_numbers := cur_nested open_state @ [1]\<rparr>"
    by blast
  have d: "\<forall>l\<in>set (lookahead_window 2 page_d_lines). \<not> matches_next default_config 5 l"
    "\<not> crosses_page default_config 2 page_d_lines 5 1 next_page_2 2"
    "cross_page (heap state_d ! 0)"
    by code_simp+
  from nested_lookahead_outcome[OF nested_line_5_facts, where ocr_result = page_d_lines
         and page_num = 1 and all_pages = next_page_2 and total_pages = 2 and idx = 2] d
  have 4: "heap (extract_step default_config page_d_lines 1 next_page_2 2 2
               nested_line_5 state_d) ! 0
        = (heap state_d ! 0)\<lparr>nested_sub_numbers := cur_nested state_d @ [5]\<rparr>"
    by blast
  from 1 2 3 4 d(3) show ?thesis by blast
qed

end
